theory Spec2Isabelle
  imports Main
begin

section \<open>Python values, errors and external effects\<close>

text \<open>
  The module \<^verbatim>\<open>refinedet/links/model/ssd_vgg16.py\<close> is embedded function by function.
  Python names that start with an underscore lose it (\<^verbatim>\<open>_check_pretrained_model\<close> is
  \<open>check_pretrained_model\<close>, \<^verbatim>\<open>_load_npz\<close> is \<open>load_npz\<close>, \<^verbatim>\<open>_available\<close> is
  \<open>available\<close>); every other name is the source's.

  An argument that may be \<^verbatim>\<open>None\<close> is an \<open>option\<close>. An exception is a value of
  \<open>py_error\<close>, and a function that may raise returns \<open>py_error + 'a\<close>.
\<close>

datatype py_error =
    ValueError string
  | TypeError string
  | IndexError string
  | KeyError string
  | IOError string

text \<open>
  The calls that leave the module and touch the outside world are recorded, in the order
  in which they happen, in a trace that every effectful function takes and returns.
\<close>

datatype event =
    Download string
  | Warn string
  | LoadNpz string

type_synonym trace = "event list"

text \<open>Truthiness as Python tests it in \<^verbatim>\<open>if v:\<close>: \<^verbatim>\<open>None\<close>, \<^verbatim>\<open>0\<close> and \<^verbatim>\<open>''\<close> are false.\<close>

fun truthy_int :: "int option \<Rightarrow> bool" where
  "truthy_int None = False"
| "truthy_int (Some n) = (n \<noteq> 0)"

fun truthy_str :: "string option \<Rightarrow> bool" where
  "truthy_str None = False"
| "truthy_str (Some s) = (s \<noteq> [])"

text \<open>The format specification \<^verbatim>\<open>{:d}\<close>: an integer in decimal, with a sign when negative.\<close>

definition digit :: "nat \<Rightarrow> char" where
  "digit d = ''0123456789'' ! d"

fun digits :: "nat \<Rightarrow> string" where
  "digits n = (if n < 10 then [digit n] else digits (n div 10) @ [digit (n mod 10)])"

declare digits.simps [simp del]

definition format_d :: "int \<Rightarrow> string" where
  "format_d i = (if i < 0 then CHR ''-'' # digits (nat (- i)) else digits (nat i))"

section \<open>The tables of pretrained weights\<close>

text \<open>An entry of a \<^verbatim>\<open>_models\<close> dictionary: the keys \<^verbatim>\<open>'n_fg_class'\<close> and \<^verbatim>\<open>'url'\<close>.\<close>

record model_entry =
  n_fg_class :: "int option"
  url :: string

type_synonym models = "string \<rightharpoonup> model_entry"

text \<open>
  What the module imports and does not define: \<^verbatim>\<open>chainercv.utils.download_model\<close>
  (from a URL to the path of the cached file), the flag \<^verbatim>\<open>_available\<close> set by the
  attempt to import \<^verbatim>\<open>cv2\<close>, the files that \<^verbatim>\<open>numpy.load\<close> finds on disk (each an archive
  of named arrays), and the parameters a freshly built chain starts with.
\<close>

type_synonym 'a npz = "string \<rightharpoonup> 'a"

datatype detector_class = SSD300Plus | DSSD300 | ESSD300Plus | ESSD300 | RefineDet320

record 'a env =
  download_model :: "string \<Rightarrow> string"
  available :: bool
  np_load :: "string \<rightharpoonup> 'a npz"
  initial_params :: "detector_class \<Rightarrow> int \<Rightarrow> (string \<times> 'a) list"

section \<open>\<^verbatim>\<open>_check_pretrained_model\<close>\<close>

definition cv2_warning :: string where
  "cv2_warning = ''cv2 is not installed on your environment. '' @
     ''Pretrained models are trained with cv2. '' @
     ''The performace may change with Pillow backend.''"

text \<open>
  Lines 53 to 60: the download of the entry's URL, then the warning when \<^verbatim>\<open>cv2\<close> is
  missing. Both branches of the class-count test that do not raise continue here.
\<close>

definition fetch ::
  "'a env \<Rightarrow> model_entry \<Rightarrow> int option \<Rightarrow> trace \<Rightarrow> (py_error + int option \<times> string option) \<times> trace" where
  "fetch env model n t =
     (let path = download_model env (url model);
          t1 = t @ [Download (url model)];
          t2 = (if \<not> available env then t1 @ [Warn cv2_warning] else t1)
      in (Inr (n, Some path), t2))"

text \<open>
  \<^verbatim>\<open>pretrained_model in models\<close>: \<^verbatim>\<open>None\<close> is not a key of a dictionary whose keys are
  strings.
\<close>

definition lookup :: "models \<Rightarrow> string option \<Rightarrow> model_entry option" where
  "lookup ms pretrained_model = (case pretrained_model of None \<Rightarrow> None | Some k \<Rightarrow> ms k)"

definition check_pretrained_model ::
  "'a env \<Rightarrow> int option \<Rightarrow> string option \<Rightarrow> models \<Rightarrow> trace
     \<Rightarrow> (py_error + int option \<times> string option) \<times> trace" where
  "check_pretrained_model env n pretrained_model ms t =
     (case lookup ms pretrained_model of
        Some model \<Rightarrow>
          (if truthy_int n then
             (if truthy_int (n_fg_class model) \<and> \<not> n = n_fg_class model
              then (Inl (ValueError (''n_fg_class should be '' @
                      (case n_fg_class model of Some m \<Rightarrow> format_d m | None \<Rightarrow> []))), t)
              else fetch env model n t)
           else
             (if \<not> truthy_int (n_fg_class model)
              then (Inl (ValueError ''n_fg_class must be specified''), t)
              else fetch env model (n_fg_class model) t))
      | None \<Rightarrow>
          (if truthy_str pretrained_model then (Inr (n, pretrained_model), t)
           else (Inr (n, None), t)))"

section \<open>The detectors and their constructors\<close>

text \<open>The class attribute \<^verbatim>\<open>_models\<close> of each of the five detector classes.\<close>

definition ssd300_voc0712_url :: string where
  "ssd300_voc0712_url = ''https://github.com/yuyu2172/share-weights/releases/'' @
     ''download/0.0.3/ssd300_voc0712_2017_06_06.npz''"

definition ssd_vgg16_imagenet_url :: string where
  "ssd_vgg16_imagenet_url = ''https://github.com/yuyu2172/share-weights/releases/'' @
     ''download/0.0.3/ssd_vgg16_imagenet_2017_06_09.npz''"

definition refinedet_imagenet_url :: string where
  "refinedet_imagenet_url = ''https://github.com/fukatani/RefineDet_chainer/releases/'' @
     ''download/0.0.0/VGG_ILSVRC_16_layers_fc_reduced.npz''"

fun models_of :: "detector_class \<Rightarrow> models" where
  "models_of SSD300Plus =
     [''voc0712'' \<mapsto> \<lparr>n_fg_class = Some 20, url = ssd300_voc0712_url\<rparr>,
      ''imagenet'' \<mapsto> \<lparr>n_fg_class = None, url = ssd_vgg16_imagenet_url\<rparr>]"
| "models_of DSSD300 =
     [''voc0712'' \<mapsto> \<lparr>n_fg_class = Some 20, url = ssd300_voc0712_url\<rparr>,
      ''imagenet'' \<mapsto> \<lparr>n_fg_class = None, url = ssd_vgg16_imagenet_url\<rparr>]"
| "models_of ESSD300Plus =
     [''imagenet'' \<mapsto> \<lparr>n_fg_class = None, url = ssd_vgg16_imagenet_url\<rparr>]"
| "models_of ESSD300 =
     [''imagenet'' \<mapsto> \<lparr>n_fg_class = None, url = ssd_vgg16_imagenet_url\<rparr>]"
| "models_of RefineDet320 =
     [''imagenet'' \<mapsto> \<lparr>n_fg_class = None, url = refinedet_imagenet_url\<rparr>]"

text \<open>
  \<^verbatim>\<open>_imagenet_mean\<close>: the three channel means, reshaped to \<^verbatim>\<open>(C, 1, 1)\<close>.
\<close>

definition imagenet_mean :: "int list list list" where
  "imagenet_mean = [[[123]], [[117]], [[104]]]"

text \<open>
  A constructed detector: the arguments its constructor hands to the base class, and the
  named parameter arrays of the chain. The extractor and the multibox head are classes
  of other modules and are kept by name.
\<close>

record 'a detector =
  extractor :: string
  multibox :: string
  n_class :: int
  aspect_ratios :: "int list list"
  steps :: "int list"
  sizes :: "int list"
  mean :: "int list list list"
  params :: "(string \<times> 'a) list"

text \<open>The call \<^verbatim>\<open>super(...).__init__(...)\<close> of each class, given \<^verbatim>\<open>n_class\<close>.\<close>

fun build :: "'a env \<Rightarrow> detector_class \<Rightarrow> int \<Rightarrow> 'a detector" where
  "build env SSD300Plus nc =
     \<lparr>extractor = ''VGG16Extractor300'', multibox = ''ResidualMultibox'', n_class = nc,
      aspect_ratios = [[2], [2, 3], [2, 3], [2, 3], [2], [2]],
      steps = [8, 16, 32, 64, 100, 300], sizes = [30, 60, 111, 162, 213, 264, 315],
      mean = imagenet_mean, params = initial_params env SSD300Plus nc\<rparr>"
| "build env DSSD300 nc =
     \<lparr>extractor = ''VGG16Extractor300'', multibox = ''DeconvolutionalResidualMultibox'',
      n_class = nc,
      aspect_ratios = [[2], [2, 3], [2, 3], [2, 3], [2], [2]],
      steps = [8, 16, 32, 64, 100, 300], sizes = [30, 60, 111, 162, 213, 264, 315],
      mean = imagenet_mean, params = initial_params env DSSD300 nc\<rparr>"
| "build env ESSD300Plus nc =
     \<lparr>extractor = ''VGG16Extractor300'', multibox = ''ExtendedResidualMultibox'',
      n_class = nc,
      aspect_ratios = [[2], [2, 3], [2, 3], [2, 3], [2], [2]],
      steps = [8, 16, 32, 64, 100, 300], sizes = [30, 60, 111, 162, 213, 264, 315],
      mean = imagenet_mean, params = initial_params env ESSD300Plus nc\<rparr>"
| "build env ESSD300 nc =
     \<lparr>extractor = ''VGG16Extractor300'', multibox = ''ExtendedMultibox'', n_class = nc,
      aspect_ratios = [[2], [2, 3], [2, 3], [2, 3], [2], [2]],
      steps = [8, 16, 32, 64, 100, 300], sizes = [30, 60, 111, 162, 213, 264, 315],
      mean = imagenet_mean, params = initial_params env ESSD300 nc\<rparr>"
| "build env RefineDet320 nc =
     \<lparr>extractor = ''VGG16Extractor320'', multibox = ''MultiboxWithTCB'', n_class = nc,
      aspect_ratios = [[2], [2], [2], [2]],
      steps = [8, 16, 32, 64], sizes = [32, 64, 128, 256],
      mean = imagenet_mean, params = initial_params env RefineDet320 nc\<rparr>"

text \<open>
  \<^verbatim>\<open>n_fg_class + 1\<close>: Python raises \<^verbatim>\<open>TypeError\<close> when the left operand is \<^verbatim>\<open>None\<close>, with
  the message \<^verbatim>\<open>unsupported operand type(s) for +: 'NoneType' and 'int'\<close> (the last
  quote of the literal is appended as a character).
\<close>

definition none_plus_int :: string where
  "none_plus_int = ''unsupported operand type(s) for +: 'NoneType' and 'int'' @ [CHR 0x27]"

fun plus_one :: "int option \<Rightarrow> py_error + int" where
  "plus_one None = Inl (TypeError none_plus_int)"
| "plus_one (Some n) = Inr (n + 1)"

subsection \<open>\<^verbatim>\<open>_load_npz\<close>\<close>

text \<open>
  Modelled from the spec: \<^verbatim>\<open>chainer.serializers.NpzDeserializer\<close> and its \<^verbatim>\<open>load\<close>, which
  the module imports and only calls (with \<^verbatim>\<open>strict=False\<close>). The spec describes checkpoint
  files as "named parameter arrays loaded by name-matching with a tolerance for missing
  entries" and the loader as one that "skips unmatched parameter names". The deserializer
  visits the parameters of the target in order; a name found in the archive takes the
  archive's array, a name not found keeps its array when the load is not strict, and is
  a \<^verbatim>\<open>KeyError\<close> when it is.
\<close>

fun NpzDeserializer_load ::
  "'a npz \<Rightarrow> bool \<Rightarrow> (string \<times> 'a) list \<Rightarrow> py_error + (string \<times> 'a) list" where
  "NpzDeserializer_load f strict [] = Inr []"
| "NpzDeserializer_load f strict ((k, v) # ps) =
     (case f k of
        None \<Rightarrow>
          (if strict then Inl (KeyError k)
           else (case NpzDeserializer_load f strict ps of
                   Inl e \<Rightarrow> Inl e
                 | Inr ps' \<Rightarrow> Inr ((k, v) # ps')))
      | Some a \<Rightarrow>
          (case NpzDeserializer_load f strict ps of
             Inl e \<Rightarrow> Inl e
           | Inr ps' \<Rightarrow> Inr ((k, a) # ps')))"

text \<open>
  \<^verbatim>\<open>_load_npz(filename, obj)\<close>: \<^verbatim>\<open>numpy.load\<close> opens the archive, or fails when there is
  no such file; the deserializer is made with \<^verbatim>\<open>strict=False\<close> and loads into \<^verbatim>\<open>obj\<close>.
\<close>

definition load_npz ::
  "'a env \<Rightarrow> string \<Rightarrow> 'a detector \<Rightarrow> trace \<Rightarrow> (py_error + 'a detector) \<times> trace" where
  "load_npz env filename obj t =
     (let t1 = t @ [LoadNpz filename] in
      case np_load env filename of
        None \<Rightarrow> (Inl (IOError filename), t1)
      | Some f \<Rightarrow>
          (case NpzDeserializer_load f False (params obj) of
             Inl e \<Rightarrow> (Inl e, t1)
           | Inr ps \<Rightarrow> (Inr (obj\<lparr>params := ps\<rparr>), t1)))"

subsection \<open>\<^verbatim>\<open>__init__\<close>\<close>

text \<open>
  The five constructors have one body: the check against the class's own table, the
  base-class constructor with \<^verbatim>\<open>n_class = n_fg_class + 1\<close>, and the load when \<^verbatim>\<open>path\<close>
  is true. They differ in the table and in what they hand to the base class.
\<close>

definition init ::
  "'a env \<Rightarrow> detector_class \<Rightarrow> int option \<Rightarrow> string option \<Rightarrow> trace
     \<Rightarrow> (py_error + 'a detector) \<times> trace" where
  "init env cls n pretrained_model t =
     (case check_pretrained_model env n pretrained_model (models_of cls) t of
        (Inl e, t1) \<Rightarrow> (Inl e, t1)
      | (Inr (n', path), t1) \<Rightarrow>
          (case plus_one n' of
             Inl e \<Rightarrow> (Inl e, t1)
           | Inr nc \<Rightarrow>
               (let self = build env cls nc in
                if truthy_str path
                then (case path of Some p \<Rightarrow> load_npz env p self t1 | None \<Rightarrow> (Inr self, t1))
                else (Inr self, t1))))"

section \<open>The feature extractors\<close>

text \<open>
  A feature map is a value of a type \<open>'t\<close> that the model leaves open. The links of a
  chain (convolutions, the normalisation) and the functions of \<^verbatim>\<open>chainer.functions\<close>
  that the forward pass calls are functions on feature maps. \<^verbatim>\<open>max_pooling_2d\<close> takes
  the map, \<^verbatim>\<open>ksize\<close>, \<^verbatim>\<open>stride\<close> (default \<^verbatim>\<open>None\<close>) and \<^verbatim>\<open>pad\<close> (default \<^verbatim>\<open>0\<close>).
\<close>

record 't chainer_functions =
  relu :: "'t \<Rightarrow> 't"
  max_pooling_2d :: "'t \<Rightarrow> int \<Rightarrow> int option \<Rightarrow> int \<Rightarrow> 't"

text \<open>The links that \<^verbatim>\<open>VGG16RefineDet.__init__\<close> registers.\<close>

record 't VGG16RefineDet =
  conv1_1 :: "'t \<Rightarrow> 't"
  conv1_2 :: "'t \<Rightarrow> 't"
  conv2_1 :: "'t \<Rightarrow> 't"
  conv2_2 :: "'t \<Rightarrow> 't"
  conv3_1 :: "'t \<Rightarrow> 't"
  conv3_2 :: "'t \<Rightarrow> 't"
  conv3_3 :: "'t \<Rightarrow> 't"
  conv4_1 :: "'t \<Rightarrow> 't"
  conv4_2 :: "'t \<Rightarrow> 't"
  conv4_3 :: "'t \<Rightarrow> 't"
  norm4 :: "'t \<Rightarrow> 't"
  conv5_1 :: "'t \<Rightarrow> 't"
  conv5_2 :: "'t \<Rightarrow> 't"
  conv5_3 :: "'t \<Rightarrow> 't"
  conv6 :: "'t \<Rightarrow> 't"
  conv7 :: "'t \<Rightarrow> 't"

text \<open>
  \<^verbatim>\<open>VGG16Extractor320\<close> is a subclass: it adds two links and the class attributes
  \<^verbatim>\<open>insize\<close> and \<^verbatim>\<open>grids\<close>.
\<close>

record 't VGG16Extractor320 = "'t VGG16RefineDet" +
  conv6_1 :: "'t \<Rightarrow> 't"
  conv6_2 :: "'t \<Rightarrow> 't"

definition insize :: int where
  "insize = 320"

definition grids :: "int list" where
  "grids = [40, 20, 10, 5]"

text \<open>\<^verbatim>\<open>VGG16RefineDet.__call__\<close>, statement by statement; \<^verbatim>\<open>ys.append(v)\<close> is \<open>ys @ [v]\<close>.\<close>

definition VGG16RefineDet_call ::
  "'t chainer_functions \<Rightarrow> ('t, 'z) VGG16RefineDet_scheme \<Rightarrow> 't \<Rightarrow> 't list" where
  "VGG16RefineDet_call F self x =
     (let ys = [];
          h = relu F (conv1_1 self x);
          h = relu F (conv1_2 self h);
          h = max_pooling_2d F h 2 None 0;
          h = relu F (conv2_1 self h);
          h = relu F (conv2_2 self h);
          h = max_pooling_2d F h 2 None 0;
          h = relu F (conv3_1 self h);
          h = relu F (conv3_2 self h);
          h = relu F (conv3_3 self h);
          h = max_pooling_2d F h 2 None 0;
          h = relu F (conv4_1 self h);
          h = relu F (conv4_2 self h);
          h = relu F (conv4_3 self h);
          ys = ys @ [norm4 self h];
          h = max_pooling_2d F h 2 None 0;
          h = relu F (conv5_1 self h);
          h = relu F (conv5_2 self h);
          h = relu F (conv5_3 self h);
          ys = ys @ [norm4 self h];
          h = max_pooling_2d F h 2 (Some 2) 0;
          h = relu F (conv6 self h);
          h = relu F (conv7 self h);
          ys = ys @ [h]
      in ys)"

text \<open>
  \<^verbatim>\<open>VGG16Extractor320.__call__\<close>: the base class's maps, then two more links on the last
  of them. \<^verbatim>\<open>ys[-1]\<close> raises \<^verbatim>\<open>IndexError\<close> on an empty list.
\<close>

definition VGG16Extractor320_call ::
  "'t chainer_functions \<Rightarrow> ('t, 'z) VGG16Extractor320_scheme \<Rightarrow> 't \<Rightarrow> py_error + 't list" where
  "VGG16Extractor320_call F self x =
     (let ys = VGG16RefineDet_call F self x in
      case ys of
        [] \<Rightarrow> Inl (IndexError ''list index out of range'')
      | _ # _ \<Rightarrow>
          (let h = last ys;
               h = relu F (conv6_1 self h);
               h = relu F (conv6_2 self h);
               ys = ys @ [h]
           in Inr ys))"

text \<open>
  The activations the forward pass taps, each written as the composition of the layers
  that lead to it: a convolution followed by \<^verbatim>\<open>relu\<close>, and the pooling between blocks.
\<close>

definition conv_relu :: "'t chainer_functions \<Rightarrow> ('t \<Rightarrow> 't) \<Rightarrow> 't \<Rightarrow> 't" where
  "conv_relu F c h = relu F (c h)"

definition conv4_3_output :: "'t chainer_functions \<Rightarrow> ('t, 'z) VGG16RefineDet_scheme \<Rightarrow> 't \<Rightarrow> 't" where
  "conv4_3_output F self =
     conv_relu F (conv4_3 self) \<circ> conv_relu F (conv4_2 self) \<circ> conv_relu F (conv4_1 self) \<circ>
     (\<lambda>h. max_pooling_2d F h 2 None 0) \<circ>
     conv_relu F (conv3_3 self) \<circ> conv_relu F (conv3_2 self) \<circ> conv_relu F (conv3_1 self) \<circ>
     (\<lambda>h. max_pooling_2d F h 2 None 0) \<circ>
     conv_relu F (conv2_2 self) \<circ> conv_relu F (conv2_1 self) \<circ>
     (\<lambda>h. max_pooling_2d F h 2 None 0) \<circ>
     conv_relu F (conv1_2 self) \<circ> conv_relu F (conv1_1 self)"

definition conv5_3_output :: "'t chainer_functions \<Rightarrow> ('t, 'z) VGG16RefineDet_scheme \<Rightarrow> 't \<Rightarrow> 't" where
  "conv5_3_output F self =
     conv_relu F (conv5_3 self) \<circ> conv_relu F (conv5_2 self) \<circ> conv_relu F (conv5_1 self) \<circ>
     (\<lambda>h. max_pooling_2d F h 2 None 0) \<circ> conv4_3_output F self"

definition conv7_output :: "'t chainer_functions \<Rightarrow> ('t, 'z) VGG16RefineDet_scheme \<Rightarrow> 't \<Rightarrow> 't" where
  "conv7_output F self =
     conv_relu F (conv7 self) \<circ> conv_relu F (conv6 self) \<circ>
     (\<lambda>h. max_pooling_2d F h 2 (Some 2) 0) \<circ> conv5_3_output F self"

definition conv6_2_output :: "'t chainer_functions \<Rightarrow> ('t, 'z) VGG16Extractor320_scheme \<Rightarrow> 't \<Rightarrow> 't" where
  "conv6_2_output F self =
     conv_relu F (conv6_2 self) \<circ> conv_relu F (conv6_1 self) \<circ> conv7_output F self"

section \<open>An environment for concrete runs\<close>

text \<open>
  A small world in which the functions can be run: downloads land in \<^verbatim>\<open>/cache/\<close>, \<^verbatim>\<open>cv2\<close>
  is missing, two checkpoints are on disk (one of them where the download of the
  \<^verbatim>\<open>voc0712\<close> weights lands), and a new chain has two parameters. Arrays are
  integers here.
\<close>

definition example_env :: "int env" where
  "example_env =
     \<lparr>download_model = (\<lambda>u. ''/cache/'' @ u),
      available = False,
      np_load =
        [''weights.npz'' \<mapsto> [''conv1_1/W'' \<mapsto> 7, ''unused'' \<mapsto> 9],
         ''/cache/'' @ ssd300_voc0712_url \<mapsto> [''conv1_1/W'' \<mapsto> 3, ''conv1_1/b'' \<mapsto> 4]],
      initial_params = (\<lambda>c nc. [(''conv1_1/W'', 0), (''conv1_1/b'', 1)])\<rparr>"

section \<open>Facts shared by the proofs\<close>


lemma fetch_result:
  "fetch env model n t =
     (Inr (n, Some (download_model env (url model))),
      t @ Download (url model) # (if available env then [] else [Warn cv2_warning]))"
  by (simp add: fetch_def Let_def)

lemma check_error_trace:
  "fst (check_pretrained_model env n pm ms t) = Inl e \<Longrightarrow>
     check_pretrained_model env n pm ms t = (Inl e, t) \<and> (\<exists>msg. e = ValueError msg)"
  by (auto simp: check_pretrained_model_def fetch_result split: option.splits if_splits)

lemma init_check_error:
  "check_pretrained_model env n pm (models_of cls) t = (Inl e, t') \<Longrightarrow>
     init env cls n pm t = (Inl e, t')"
  by (simp add: init_def)

text \<open>The only class count that a table of the module fixes is 20.\<close>

lemma models_of_count:
  "models_of cls k = Some model \<Longrightarrow> n_fg_class model = Some m \<Longrightarrow> m = 20"
  by (cases cls) (auto split: if_splits)


lemma NpzDeserializer_load_permissive:
  "NpzDeserializer_load f False ps =
     Inr (map (\<lambda>(k, v). (k, case f k of None \<Rightarrow> v | Some a \<Rightarrow> a)) ps)"
  by (induction ps) (auto split: option.splits)

lemma example_env_download: "download_model example_env u = ''/cache/'' @ u"
  by (simp add: example_env_def)

lemma example_env_available: "\<not> available example_env"
  by (simp add: example_env_def)

lemma example_env_cached:
  "np_load example_env (''/cache/'' @ ssd300_voc0712_url) =
     Some [''conv1_1/W'' \<mapsto> 3, ''conv1_1/b'' \<mapsto> 4]"
  by (simp add: example_env_def)

lemma example_env_initial_params:
  "initial_params example_env c nc = [(''conv1_1/W'', 0), (''conv1_1/b'', 1)]"
  by (simp add: example_env_def)

lemma example_env_load_cached:
  "load_npz example_env (''/cache/'' @ ssd300_voc0712_url) (build example_env SSD300Plus 21)
     [Download ssd300_voc0712_url, Warn cv2_warning] =
   (Inr ((build example_env SSD300Plus 21)\<lparr>params := [(''conv1_1/W'', 3), (''conv1_1/b'', 4)]\<rparr>),
    [Download ssd300_voc0712_url, Warn cv2_warning, LoadNpz (''/cache/'' @ ssd300_voc0712_url)])"
  unfolding load_npz_def Let_def example_env_cached by (simp add: example_env_initial_params)

section \<open>The class count given with a named weight set\<close>




section \<open>No class count from either source\<close>

text \<open>
  Claim C2, as the code has it. For each of the five constructors, called without
  \<^verbatim>\<open>n_fg_class\<close>: when \<^verbatim>\<open>pretrained_model\<close> is a key of the table whose entry fixes no
  count, the call fails with \<^verbatim>\<open>ValueError('n_fg_class must be specified')\<close>; when it is
  not a key (a file path, the empty string or \<^verbatim>\<open>None\<close>), \<^verbatim>\<open>_check_pretrained_model\<close> raises
  nothing and returns \<^verbatim>\<open>None\<close> as the count, and the call fails at \<^verbatim>\<open>n_fg_class + 1\<close> with
  a \<^verbatim>\<open>TypeError\<close>. In both cases the trace is unchanged.
\<close>

theorem no_class_count:
  "(models_of cls k = Some model \<and> n_fg_class model = None \<longrightarrow>
      init env cls None (Some k) t = (Inl (ValueError ''n_fg_class must be specified''), t))
   \<and> (lookup (models_of cls) pm = None \<longrightarrow>
        check_pretrained_model env None pm (models_of cls) t =
          (Inr (None, if truthy_str pm then pm else None), t)
        \<and> init env cls None pm t =
          (Inl (TypeError none_plus_int), t))"
proof (intro conjI impI)
  assume "models_of cls k = Some model \<and> n_fg_class model = None"
  then have "check_pretrained_model env None (Some k) (models_of cls) t =
      (Inl (ValueError ''n_fg_class must be specified''), t)"
    by (simp add: check_pretrained_model_def lookup_def)
  then show "init env cls None (Some k) t = (Inl (ValueError ''n_fg_class must be specified''), t)"
    by (rule init_check_error)
next
  assume "lookup (models_of cls) pm = None"
  then show c: "check_pretrained_model env None pm (models_of cls) t =
      (Inr (None, if truthy_str pm then pm else None), t)"
    by (simp add: check_pretrained_model_def)
  show "init env cls None pm t =
      (Inl (TypeError none_plus_int), t)"
    by (simp add: init_def c)
qed

text \<open>
  The theorem at \<^verbatim>\<open>RefineDet320(pretrained_model='imagenet')\<close> and at
  \<^verbatim>\<open>RefineDet320(pretrained_model='weights.npz')\<close>.
\<close>

theorem no_class_count_witness:
  "models_of RefineDet320 ''imagenet'' = Some \<lparr>n_fg_class = None, url = refinedet_imagenet_url\<rparr>
   \<and> n_fg_class \<lparr>n_fg_class = None, url = refinedet_imagenet_url\<rparr> = None
   \<and> init example_env RefineDet320 None (Some ''imagenet'') [] =
       (Inl (ValueError ''n_fg_class must be specified''), [])
   \<and> lookup (models_of RefineDet320) (Some ''weights.npz'') = None
   \<and> check_pretrained_model example_env None (Some ''weights.npz'') (models_of RefineDet320) [] =
       (Inr (None, Some ''weights.npz''), [])
   \<and> init example_env RefineDet320 None (Some ''weights.npz'') [] =
       (Inl (TypeError none_plus_int), [])"
proof -
  have h1: "models_of RefineDet320 ''imagenet'' =
      Some \<lparr>n_fg_class = None, url = refinedet_imagenet_url\<rparr>"
    by simp
  have h2: "n_fg_class \<lparr>n_fg_class = None, url = refinedet_imagenet_url\<rparr> = None"
    by simp
  have h3: "lookup (models_of RefineDet320) (Some ''weights.npz'') = None"
    by (simp add: lookup_def)
  from no_class_count [of RefineDet320 "''imagenet''"
      "\<lparr>n_fg_class = None, url = refinedet_imagenet_url\<rparr>" example_env "[]" "Some ''weights.npz''"]
    h1 h2 h3
  show ?thesis
    by simp
qed

text \<open>
  Claim C2 asks for the input-validation error in every case. \<^verbatim>\<open>RefineDet320()\<close>, with
  both arguments left at \<^verbatim>\<open>None\<close>, passes the check and fails with the \<^verbatim>\<open>TypeError\<close> of
  the addition instead.
\<close>

theorem missing_count_type_error:
  "fst (check_pretrained_model example_env None None (models_of RefineDet320) []) = Inr (None, None)
   \<and> init example_env RefineDet320 None None [] =
       (Inl (TypeError none_plus_int), [])"
  by (simp add: init_def check_pretrained_model_def lookup_def)

section \<open>Loading a checkpoint\<close>

text \<open>
  Claim C3. When \<^verbatim>\<open>numpy.load\<close> finds the archive \<open>f\<close> under \<^verbatim>\<open>filename\<close>, \<^verbatim>\<open>_load_npz\<close> does
  not fail, whatever \<open>f\<close> holds. The parameters of the result have the names of the
  model's parameters, in the same order: a name that \<open>f\<close> has takes the array of \<open>f\<close>, a
  name that \<open>f\<close> lacks keeps its array, and a name that only \<open>f\<close> has appears nowhere.
\<close>

theorem load_npz_permissive:
  assumes "np_load env filename = Some f"
  shows "load_npz env filename obj t =
           (Inr (obj\<lparr>params := map (\<lambda>(k, v). (k, case f k of None \<Rightarrow> v | Some a \<Rightarrow> a)) (params obj)\<rparr>),
            t @ [LoadNpz filename])"
  using assms by (simp add: load_npz_def NpzDeserializer_load_permissive)

text \<open>
  The theorem on the checkpoint \<^verbatim>\<open>weights.npz\<close>, which has \<^verbatim>\<open>conv1_1/W\<close> and a name the
  model lacks, and misses \<^verbatim>\<open>conv1_1/b\<close>.
\<close>

theorem load_npz_permissive_witness:
  "np_load example_env ''weights.npz'' = Some [''conv1_1/W'' \<mapsto> 7, ''unused'' \<mapsto> 9]
   \<and> map_sum id params (fst (load_npz example_env ''weights.npz'' (build example_env ESSD300 3) [])) =
       Inr [(''conv1_1/W'', 7), (''conv1_1/b'', 1)]
   \<and> snd (load_npz example_env ''weights.npz'' (build example_env ESSD300 3) []) =
       [LoadNpz ''weights.npz'']"
proof -
  have h: "np_load example_env ''weights.npz'' = Some [''conv1_1/W'' \<mapsto> 7, ''unused'' \<mapsto> 9]"
    by (simp add: example_env_def)
  from load_npz_permissive [OF h, of "build example_env ESSD300 3" "[]"] h
  show ?thesis
    by (simp add: example_env_def)
qed

section \<open>When the check raises\<close>




section \<open>Named weight sets and file paths\<close>

text \<open>
  Claim C5. For each of the five classes and each key of its table, let \<open>c\<close> be the
  resolved class count: the table's count when the table fixes one (and the caller gives
  none, 0, or the same count), the caller's non-zero count when the table fixes none. Then
  \<^verbatim>\<open>_check_pretrained_model\<close> returns: it downloads the URL of that key, first of all it
  adds to the trace, and hands back \<open>c\<close> and the path that \<^verbatim>\<open>download_model\<close> gave. The
  constructor then loads the weights from exactly that path, with \<^verbatim>\<open>_load_npz\<close>, into the
  detector it built with \<open>c + 1\<close> classes. In every other case in which the check returns
  at all, what it returns is again the table's count if there is one, else the caller's,
  and the downloaded path.
\<close>

theorem named_weights_resolution:
  assumes "models_of cls k = Some model"
  shows "((n_fg_class model = Some c \<and> (\<not> truthy_int n \<or> n = Some c))
          \<or> (n_fg_class model = None \<and> n = Some c \<and> c \<noteq> 0) \<longrightarrow>
            check_pretrained_model env n (Some k) (models_of cls) t =
              (Inr (Some c, Some (download_model env (url model))),
               t @ Download (url model) # (if available env then [] else [Warn cv2_warning]))
            \<and> (download_model env (url model) \<noteq> [] \<longrightarrow>
                 init env cls n (Some k) t =
                   load_npz env (download_model env (url model)) (build env cls (c + 1))
                     (t @ Download (url model) # (if available env then [] else [Warn cv2_warning]))))
       \<and> (\<not> isl (fst (check_pretrained_model env n (Some k) (models_of cls) t)) \<longrightarrow>
            check_pretrained_model env n (Some k) (models_of cls) t =
              (Inr (case n_fg_class model of Some m \<Rightarrow> Some m | None \<Rightarrow> n,
                    Some (download_model env (url model))),
               t @ Download (url model) # (if available env then [] else [Warn cv2_warning])))"
proof (intro conjI impI)
  assume A: "(n_fg_class model = Some c \<and> (\<not> truthy_int n \<or> n = Some c))
          \<or> (n_fg_class model = None \<and> n = Some c \<and> c \<noteq> 0)"
  have l: "lookup (models_of cls) (Some k) = Some model"
    using assms by (simp add: lookup_def)
  from A show chk: "check_pretrained_model env n (Some k) (models_of cls) t =
      (Inr (Some c, Some (download_model env (url model))),
       t @ Download (url model) # (if available env then [] else [Warn cv2_warning]))"
  proof (elim disjE conjE)
    assume m: "n_fg_class model = Some c" and "\<not> truthy_int n"
    moreover from assms m have "c = 20"
      by (rule models_of_count)
    ultimately show ?thesis
      by (simp add: check_pretrained_model_def l fetch_result)
  next
    assume m: "n_fg_class model = Some c" and "n = Some c"
    moreover from assms m have "c = 20"
      by (rule models_of_count)
    ultimately show ?thesis
      by (simp add: check_pretrained_model_def l fetch_result)
  next
    assume "n_fg_class model = None" and "n = Some c" and "c \<noteq> 0"
    then show ?thesis
      by (simp add: check_pretrained_model_def l fetch_result)
  qed
  assume "download_model env (url model) \<noteq> []"
  then show "init env cls n (Some k) t =
      load_npz env (download_model env (url model)) (build env cls (c + 1))
        (t @ Download (url model) # (if available env then [] else [Warn cv2_warning]))"
    by (simp add: init_def chk)
next
  assume r: "\<not> isl (fst (check_pretrained_model env n (Some k) (models_of cls) t))"
  show "check_pretrained_model env n (Some k) (models_of cls) t =
      (Inr (case n_fg_class model of Some m \<Rightarrow> Some m | None \<Rightarrow> n,
            Some (download_model env (url model))),
       t @ Download (url model) # (if available env then [] else [Warn cv2_warning]))"
  proof (cases "n_fg_class model")
    case None
    with assms r show ?thesis
      by (auto simp: check_pretrained_model_def lookup_def fetch_result split: if_splits)
  next
    case (Some m)
    with assms have "m = 20" by (rule models_of_count)
    with Some assms r show ?thesis
      by (auto simp: check_pretrained_model_def lookup_def fetch_result split: if_splits)
  qed
qed

text \<open>
  The theorem at \<^verbatim>\<open>SSD300Plus(pretrained_model='voc0712')\<close>: the check resolves the count
  to the table's 20, the constructor loads the downloaded file into a detector of 21
  classes, and the parameters of the result are those of the file. And at \<^verbatim>\<open>'imagenet'\<close>
  for \<^verbatim>\<open>RefineDet320\<close> with the count 5: the caller's count is the one returned.
\<close>

theorem named_weights_resolution_witness:
  "models_of SSD300Plus ''voc0712'' = Some \<lparr>n_fg_class = Some 20, url = ssd300_voc0712_url\<rparr>
   \<and> n_fg_class \<lparr>n_fg_class = Some 20, url = ssd300_voc0712_url\<rparr> = Some 20
   \<and> \<not> truthy_int None
   \<and> download_model example_env (url \<lparr>n_fg_class = Some 20, url = ssd300_voc0712_url\<rparr>) \<noteq> []
   \<and> check_pretrained_model example_env None (Some ''voc0712'') (models_of SSD300Plus) [] =
       (Inr (Some 20, Some (''/cache/'' @ ssd300_voc0712_url)),
        [Download ssd300_voc0712_url, Warn cv2_warning])
   \<and> \<not> isl (fst (check_pretrained_model example_env None (Some ''voc0712'') (models_of SSD300Plus) []))
   \<and> init example_env SSD300Plus None (Some ''voc0712'') [] =
       load_npz example_env (''/cache/'' @ ssd300_voc0712_url) (build example_env SSD300Plus 21)
         [Download ssd300_voc0712_url, Warn cv2_warning]
   \<and> map_sum id params (fst (init example_env SSD300Plus None (Some ''voc0712'') [])) =
       Inr [(''conv1_1/W'', 3), (''conv1_1/b'', 4)]
   \<and> snd (init example_env SSD300Plus None (Some ''voc0712'') []) =
       [Download ssd300_voc0712_url, Warn cv2_warning, LoadNpz (''/cache/'' @ ssd300_voc0712_url)]
   \<and> models_of RefineDet320 ''imagenet'' = Some \<lparr>n_fg_class = None, url = refinedet_imagenet_url\<rparr>
   \<and> n_fg_class \<lparr>n_fg_class = None, url = refinedet_imagenet_url\<rparr> = None
   \<and> (5::int) \<noteq> 0
   \<and> check_pretrained_model example_env (Some 5) (Some ''imagenet'') (models_of RefineDet320) [] =
       (Inr (Some 5, Some (''/cache/'' @ refinedet_imagenet_url)),
        [Download refinedet_imagenet_url, Warn cv2_warning])"
proof -
  let ?m = "\<lparr>n_fg_class = Some 20, url = ssd300_voc0712_url\<rparr>"
  have h1: "models_of SSD300Plus ''voc0712'' = Some ?m"
    by simp
  have h2: "n_fg_class ?m = Some 20" and h3: "\<not> truthy_int None"
    by simp_all
  have h4: "download_model example_env (url ?m) \<noteq> []"
    by (simp add: example_env_download)
  have u: "url ?m = ssd300_voc0712_url"
    by simp
  have d: "download_model example_env ssd300_voc0712_url = ''/cache/'' @ ssd300_voc0712_url"
    by (rule example_env_download)
  have w: "[] @ Download ssd300_voc0712_url # (if available example_env then [] else [Warn cv2_warning]) =
      [Download ssd300_voc0712_url, Warn cv2_warning]"
    by (simp add: example_env_available)
  have e: "(20::int) + 1 = 21"
    by simp
  note f = named_weights_resolution [OF h1, of 20 None example_env "[]", THEN conjunct1, THEN mp,
      OF disjI1 [OF conjI [OF h2 disjI1 [OF h3]]]]
  have c: "check_pretrained_model example_env None (Some ''voc0712'') (models_of SSD300Plus) [] =
      (Inr (Some 20, Some (''/cache/'' @ ssd300_voc0712_url)),
       [Download ssd300_voc0712_url, Warn cv2_warning])"
    using f [THEN conjunct1] unfolding u d w .
  have i: "init example_env SSD300Plus None (Some ''voc0712'') [] =
      load_npz example_env (''/cache/'' @ ssd300_voc0712_url) (build example_env SSD300Plus 21)
        [Download ssd300_voc0712_url, Warn cv2_warning]"
    using f [THEN conjunct2, THEN mp, OF h4] unfolding u d w e .
  have p: "map_sum id params (fst (init example_env SSD300Plus None (Some ''voc0712'') [])) =
       Inr [(''conv1_1/W'', 3), (''conv1_1/b'', 4)]"
    unfolding i example_env_load_cached by simp
  have s: "snd (init example_env SSD300Plus None (Some ''voc0712'') []) =
       [Download ssd300_voc0712_url, Warn cv2_warning, LoadNpz (''/cache/'' @ ssd300_voc0712_url)]"
    unfolding i example_env_load_cached by (rule snd_conv)
  have r: "\<not> isl (fst (check_pretrained_model example_env None (Some ''voc0712'')
      (models_of SSD300Plus) []))"
    unfolding c by simp
  let ?m' = "\<lparr>n_fg_class = None, url = refinedet_imagenet_url\<rparr>"
  have b1: "models_of RefineDet320 ''imagenet'' = Some ?m'"
    by simp
  have b2: "n_fg_class ?m' = None" and b3: "(5::int) \<noteq> 0"
    by simp_all
  have u': "url ?m' = refinedet_imagenet_url"
    by simp
  have d': "download_model example_env refinedet_imagenet_url = ''/cache/'' @ refinedet_imagenet_url"
    by (rule example_env_download)
  have w': "[] @ Download refinedet_imagenet_url #
      (if available example_env then [] else [Warn cv2_warning]) =
      [Download refinedet_imagenet_url, Warn cv2_warning]"
    by (simp add: example_env_available)
  have c': "check_pretrained_model example_env (Some 5) (Some ''imagenet'')
      (models_of RefineDet320) [] =
      (Inr (Some 5, Some (''/cache/'' @ refinedet_imagenet_url)),
       [Download refinedet_imagenet_url, Warn cv2_warning])"
    using named_weights_resolution [OF b1, of 5 "Some 5" example_env "[]", THEN conjunct1, THEN mp,
        OF disjI2 [OF conjI [OF b2 conjI [OF refl b3]]], THEN conjunct1]
    unfolding u' d' w' .
  from h1 h2 h3 h4 c r i p s b1 b2 b3 c' show ?thesis
    by (intro conjI)
qed

text \<open>
  Claim C6, as the code has it. For each of the five classes and each non-empty string
  that is not a key of its table: \<^verbatim>\<open>_check_pretrained_model\<close> raises nothing, downloads
  nothing and returns the caller's count and the string itself as the path; and when the
  caller has given a count \<open>nv\<close>, the constructor is \<^verbatim>\<open>_load_npz\<close> from that path into the
  detector built with \<open>nv + 1\<close> classes, the load being the only event it adds.
\<close>

theorem file_path_passthrough:
  assumes "p \<noteq> []" and "models_of cls p = None"
  shows "check_pretrained_model env n (Some p) (models_of cls) t = (Inr (n, Some p), t)
       \<and> (\<forall>nv. n = Some nv \<longrightarrow>
             init env cls n (Some p) t = load_npz env p (build env cls (nv + 1)) t
             \<and> snd (init env cls n (Some p) t) = t @ [LoadNpz p])"
  using assms
  by (auto simp: check_pretrained_model_def lookup_def init_def load_npz_def Let_def
      split: option.splits sum.splits)

text \<open>The theorem at \<^verbatim>\<open>ESSD300(n_fg_class=3, pretrained_model='weights.npz')\<close>.\<close>

theorem file_path_passthrough_witness:
  "''weights.npz'' \<noteq> []
   \<and> models_of ESSD300 ''weights.npz'' = None
   \<and> check_pretrained_model example_env (Some 3) (Some ''weights.npz'') (models_of ESSD300) [] =
       (Inr (Some 3, Some ''weights.npz''), [])
   \<and> init example_env ESSD300 (Some 3) (Some ''weights.npz'') [] =
       load_npz example_env ''weights.npz'' (build example_env ESSD300 4) []
   \<and> snd (init example_env ESSD300 (Some 3) (Some ''weights.npz'') []) = [LoadNpz ''weights.npz'']"
proof -
  have h1: "''weights.npz'' \<noteq> []"
    by simp
  have h2: "models_of ESSD300 ''weights.npz'' = None"
    by simp
  note f = file_path_passthrough [OF h1 h2, of example_env "Some 3" "[]"]
  from f have c: "check_pretrained_model example_env (Some 3) (Some ''weights.npz'')
      (models_of ESSD300) [] = (Inr (Some 3, Some ''weights.npz''), [])"
    by (rule conjunct1)
  from f have i: "init example_env ESSD300 (Some 3) (Some ''weights.npz'') [] =
      load_npz example_env ''weights.npz'' (build example_env ESSD300 (3 + 1)) []"
    and s: "snd (init example_env ESSD300 (Some 3) (Some ''weights.npz'') []) =
      [] @ [LoadNpz ''weights.npz'']"
    by blast+
  from i have i4: "init example_env ESSD300 (Some 3) (Some ''weights.npz'') [] =
      load_npz example_env ''weights.npz'' (build example_env ESSD300 4) []"
    by simp
  from s have s4: "snd (init example_env ESSD300 (Some 3) (Some ''weights.npz'') []) =
      [LoadNpz ''weights.npz'']"
    by (simp only: append_Nil)
  from h1 h2 c i4 s4 show ?thesis
    by (intro conjI)
qed

text \<open>
  Claim C6 has the weights loaded for every such string. Without a count from the caller
  they are not: \<^verbatim>\<open>SSD300Plus(pretrained_model='foo.npz')\<close> fails at \<^verbatim>\<open>n_fg_class + 1\<close>,
  before \<^verbatim>\<open>_load_npz\<close> is reached, and its trace has no load.
\<close>

theorem path_without_count_not_loaded:
  "''foo.npz'' \<noteq> []
   \<and> models_of SSD300Plus ''foo.npz'' = None
   \<and> init example_env SSD300Plus None (Some ''foo.npz'') [] =
       (Inl (TypeError none_plus_int), [])"
  by (simp add: init_def check_pretrained_model_def lookup_def)

section \<open>The count 0\<close>

text \<open>
  Claim C7. For any table and any of its keys, \<^verbatim>\<open>_check_pretrained_model\<close> with the count
  0 does what it does with \<^verbatim>\<open>None\<close>, result and trace alike: when the entry fixes a count
  it returns that count and raises no mismatch, and when the entry fixes none it raises
  \<^verbatim>\<open>ValueError('n_fg_class must be specified')\<close>.
\<close>

theorem zero_count_as_none:
  assumes "ms k = Some model"
  shows "check_pretrained_model env (Some 0) (Some k) ms t =
           check_pretrained_model env None (Some k) ms t
       \<and> (truthy_int (n_fg_class model) \<longrightarrow>
            fst (check_pretrained_model env (Some 0) (Some k) ms t) =
              Inr (n_fg_class model, Some (download_model env (url model))))
       \<and> (\<not> truthy_int (n_fg_class model) \<longrightarrow>
            check_pretrained_model env (Some 0) (Some k) ms t =
              (Inl (ValueError ''n_fg_class must be specified''), t))"
  using assms by (simp add: check_pretrained_model_def lookup_def fetch_result)

text \<open>The theorem for \<^verbatim>\<open>SSD300Plus\<close>, at \<^verbatim>\<open>'voc0712'\<close> and at \<^verbatim>\<open>'imagenet'\<close>.\<close>

theorem zero_count_as_none_witness:
  "models_of SSD300Plus ''voc0712'' = Some \<lparr>n_fg_class = Some 20, url = ssd300_voc0712_url\<rparr>
   \<and> truthy_int (n_fg_class \<lparr>n_fg_class = Some 20, url = ssd300_voc0712_url\<rparr>)
   \<and> fst (check_pretrained_model example_env (Some 0) (Some ''voc0712'') (models_of SSD300Plus) []) =
       Inr (Some 20, Some (''/cache/'' @ ssd300_voc0712_url))
   \<and> models_of SSD300Plus ''imagenet'' = Some \<lparr>n_fg_class = None, url = ssd_vgg16_imagenet_url\<rparr>
   \<and> \<not> truthy_int (n_fg_class \<lparr>n_fg_class = None, url = ssd_vgg16_imagenet_url\<rparr>)
   \<and> check_pretrained_model example_env (Some 0) (Some ''imagenet'') (models_of SSD300Plus) [] =
       (Inl (ValueError ''n_fg_class must be specified''), [])
   \<and> check_pretrained_model example_env None (Some ''imagenet'') (models_of SSD300Plus) [] =
       (Inl (ValueError ''n_fg_class must be specified''), [])"
proof -
  have a: "models_of SSD300Plus ''voc0712'' =
      Some \<lparr>n_fg_class = Some 20, url = ssd300_voc0712_url\<rparr>"
    by simp
  have b: "models_of SSD300Plus ''imagenet'' =
      Some \<lparr>n_fg_class = None, url = ssd_vgg16_imagenet_url\<rparr>"
    by simp
  from zero_count_as_none [where ms = "models_of SSD300Plus" and k = "''voc0712''"
      and env = example_env and t = "[]", OF a]
    zero_count_as_none [where ms = "models_of SSD300Plus" and k = "''imagenet''"
      and env = example_env and t = "[]", OF b] a b
  show ?thesis
    by (auto simp add: example_env_download)
qed

section \<open>A failed check has no effect\<close>

text \<open>
  Claim C8. When \<^verbatim>\<open>_check_pretrained_model\<close> raises, the error is a \<^verbatim>\<open>ValueError\<close> and the
  trace is the one it was given: \<^verbatim>\<open>download_model\<close> has not been called. The constructor
  then fails with the same error and the same trace, so nothing is downloaded and
  nothing is loaded.
\<close>

theorem validation_failure_no_effects:
  "(fst (check_pretrained_model env n pm ms t) = Inl e \<longrightarrow>
      (\<exists>msg. e = ValueError msg) \<and> snd (check_pretrained_model env n pm ms t) = t)
   \<and> (fst (check_pretrained_model env n pm (models_of cls) t) = Inl e \<longrightarrow>
        init env cls n pm t = (Inl e, t))"
  using check_error_trace [of env n pm ms t e] check_error_trace [of env n pm "models_of cls" t e]
    init_check_error [of env n pm cls t e t]
  by auto

text \<open>
  The theorem at \<^verbatim>\<open>RefineDet320(pretrained_model='imagenet')\<close>, started with a trace that
  already holds one event.
\<close>

theorem validation_failure_no_effects_witness:
  "fst (check_pretrained_model example_env None (Some ''imagenet'') (models_of RefineDet320)
      [Warn ''earlier'']) = Inl (ValueError ''n_fg_class must be specified'')
   \<and> snd (check_pretrained_model example_env None (Some ''imagenet'') (models_of RefineDet320)
      [Warn ''earlier'']) = [Warn ''earlier'']
   \<and> init example_env RefineDet320 None (Some ''imagenet'') [Warn ''earlier''] =
       (Inl (ValueError ''n_fg_class must be specified''), [Warn ''earlier''])"
proof -
  have h: "fst (check_pretrained_model example_env None (Some ''imagenet'') (models_of RefineDet320)
      [Warn ''earlier'']) = Inl (ValueError ''n_fg_class must be specified'')"
    by (simp add: check_pretrained_model_def lookup_def)
  from validation_failure_no_effects [of example_env None "Some ''imagenet''"
      "models_of RefineDet320" "[Warn ''earlier'']" "ValueError ''n_fg_class must be specified''"
      RefineDet320] h
  show ?thesis
    by simp
qed

section \<open>The feature maps\<close>

text \<open>
  Claim C9. \<^verbatim>\<open>VGG16RefineDet.__call__\<close> returns three maps: \<^verbatim>\<open>norm4\<close> of the \<^verbatim>\<open>conv4_3\<close>
  activation, the same \<^verbatim>\<open>norm4\<close> of the \<^verbatim>\<open>conv5_3\<close> activation, and the \<^verbatim>\<open>conv7\<close>
  activation, in this order. \<^verbatim>\<open>VGG16Extractor320.__call__\<close> does not raise and returns
  these three followed by the \<^verbatim>\<open>conv6_2\<close> activation: four maps, as many as \<^verbatim>\<open>grids\<close>
  has entries.
\<close>

theorem VGG16_feature_maps:
  "VGG16RefineDet_call F self x =
     [norm4 self (conv4_3_output F self x), norm4 self (conv5_3_output F self x), conv7_output F self x]
   \<and> length (VGG16RefineDet_call F self x) = 3
   \<and> VGG16Extractor320_call F ext x = Inr (VGG16RefineDet_call F ext x @ [conv6_2_output F ext x])
   \<and> length (VGG16RefineDet_call F ext x @ [conv6_2_output F ext x]) = 4
   \<and> length grids = 4"
  by (simp add: VGG16RefineDet_call_def VGG16Extractor320_call_def Let_def conv_relu_def
      conv4_3_output_def conv5_3_output_def conv7_output_def conv6_2_output_def grids_def)

end
